theory Spec2Isabelle
  imports Main "HOL-Library.Multiset"
begin

section \<open>Errors and results\<close>

text \<open>
  Every exception the fetcher module can raise is a value. A computation that may raise
  returns \<open>error + 'a\<close>, with \<open>Inl\<close> carrying the exception.
\<close>

datatype error =
    KeyError
  | TypeError
  | ValueError
  | RuntimeError
  | InvalidOperation
  | OutOfBoundsDatetime
  | OverflowError
  | TransportError

type_synonym 'a result = "error + 'a"

definition rbind :: "'a result \<Rightarrow> ('a \<Rightarrow> 'b result) \<Rightarrow> 'b result" where
  "rbind m f = (case m of Inl e \<Rightarrow> Inl e | Inr v \<Rightarrow> f v)"

text \<open>Applying a raising function to every element of a column, left to right.\<close>

fun traverse :: "('a \<Rightarrow> 'b result) \<Rightarrow> 'a list \<Rightarrow> 'b list result" where
  "traverse f [] = Inr []"
| "traverse f (x # xs) = rbind (f x) (\<lambda>y. rbind (traverse f xs) (\<lambda>ys. Inr (y # ys)))"

section \<open>Venue payloads\<close>

text \<open>
  The scalar values of a decoded JSON payload, and a JSON object as a Python dict from
  field names to scalars. \<open>d[k]\<close> raises \<open>KeyError\<close> when the key is absent.
  JSON numbers with a fraction are floating point and are not part of this model.
\<close>

datatype jscalar = JNull | JInt int | JStr string

type_synonym jobject = "string \<rightharpoonup> jscalar"

definition subscript :: "('k \<rightharpoonup> 'v) \<Rightarrow> 'k \<Rightarrow> 'v result" where
  "subscript d k = (case d k of None \<Rightarrow> Inl KeyError | Some v \<Rightarrow> Inr v)"

text \<open>
  A raw symbol-info object: its scalar fields, and its \<open>filters\<close> field, a list of
  filter objects (\<open>None\<close> when the key \<open>filters\<close> is absent).
\<close>

record syminfo =
  attrs :: jobject
  filters :: "jobject list option"

text \<open>\<open>info['filters']\<close>.\<close>

definition info_filters :: "syminfo \<Rightarrow> jobject list result" where
  "info_filters info = (case filters info of None \<Rightarrow> Inl KeyError | Some fs \<Rightarrow> Inr fs)"

section \<open>Exact decimals\<close>

text \<open>
  The values of Python's \<open>decimal.Decimal\<close>: a finite number is sign, coefficient and
  exponent (value \<open>(-1)^sign * coefficient * 10^exponent\<close>); the sign is \<open>True\<close> for minus.
\<close>

datatype decimal = DFinite bool nat int | DInfinity bool | DNaN bool

definition is_space :: "char \<Rightarrow> bool" where
  "is_space c = (c \<in> set [CHR '' '', CHR 0x09, CHR 0x0A, CHR 0x0B, CHR 0x0C, CHR 0x0D])"

definition is_digit :: "char \<Rightarrow> bool" where
  "is_digit c = (c \<in> set ''0123456789'')"

definition digit_val :: "char \<Rightarrow> nat" where
  "digit_val c = (case map_of (zip ''0123456789'' [0 ..< 10]) c of Some d \<Rightarrow> d | None \<Rightarrow> 0)"

definition nat_of_digits :: "string \<Rightarrow> nat" where
  "nat_of_digits ds = foldl (\<lambda>acc c. 10 * acc + digit_val c) 0 ds"

definition lower_ascii :: "char \<Rightarrow> char" where
  "lower_ascii c =
     (case map_of (zip ''ABCDEFGHIJKLMNOPQRSTUVWXYZ'' ''abcdefghijklmnopqrstuvwxyz'') c of
        Some l \<Rightarrow> l | None \<Rightarrow> c)"

definition strip :: "string \<Rightarrow> string" where
  "strip s = rev (dropWhile is_space (rev (dropWhile is_space s)))"

fun split_sign :: "string \<Rightarrow> bool \<times> string" where
  "split_sign [] = (False, [])"
| "split_sign (c # cs) =
     (if c = CHR ''-'' then (True, cs) else if c = CHR ''+'' then (False, cs) else (False, c # cs))"

text \<open>The exponent part after the indicator: an optional sign and at least one digit.\<close>

definition parse_exponent :: "string \<Rightarrow> int option" where
  "parse_exponent s =
     (case split_sign s of (neg, ds) \<Rightarrow>
        if ds \<noteq> [] \<and> list_all is_digit ds
        then Some (if neg then - int (nat_of_digits ds) else int (nat_of_digits ds))
        else None)"

text \<open>
  \<open>decimal-part [exponent-part]\<close>, where the decimal part is \<open>digits '.' [digits]\<close> or
  \<open>['.'] digits\<close>: the coefficient is all the digits, the exponent is lowered by the number
  of fraction digits.
\<close>

definition parse_finite :: "string \<Rightarrow> (nat \<times> int) option" where
  "parse_finite body =
     (let ip = takeWhile is_digit body;
          r1 = dropWhile is_digit body;
          fp = (case r1 of [] \<Rightarrow> [] | c # r \<Rightarrow> if c = CHR ''.'' then takeWhile is_digit r else []);
          r2 = (case r1 of [] \<Rightarrow> [] | c # r \<Rightarrow> if c = CHR ''.'' then dropWhile is_digit r else r1)
      in if ip = [] \<and> fp = [] then None
         else (case r2 of
                 [] \<Rightarrow> Some (nat_of_digits (ip @ fp), - int (length fp))
               | c # r3 \<Rightarrow>
                   if c = CHR ''e'' \<or> c = CHR ''E''
                   then (case parse_exponent r3 of
                           None \<Rightarrow> None
                         | Some e \<Rightarrow> Some (nat_of_digits (ip @ fp), e - int (length fp)))
                   else None))"

definition parse_special :: "bool \<Rightarrow> string \<Rightarrow> decimal option" where
  "parse_special neg body =
     (let l = map lower_ascii body
      in if l = ''inf'' \<or> l = ''infinity'' then Some (DInfinity neg)
         else if take 3 l = ''nan'' \<and> list_all is_digit (drop 3 l) then Some (DNaN neg)
         else if take 4 l = ''snan'' \<and> list_all is_digit (drop 4 l) then Some (DNaN neg)
         else None)"

text \<open>
  \<open>Decimal(str)\<close>: surrounding whitespace and all underscores are removed, then the text
  is read as \<open>[sign] numeric-value\<close> or \<open>[sign] nan\<close>; anything else raises
  \<open>InvalidOperation\<close>.
\<close>

definition Decimal_of_string :: "string \<Rightarrow> decimal result" where
  "Decimal_of_string s =
     (case split_sign (filter (\<lambda>c. c \<noteq> CHR ''_'') (strip s)) of (neg, body) \<Rightarrow>
        (case parse_finite body of
           Some (c, e) \<Rightarrow> Inr (DFinite neg c e)
         | None \<Rightarrow>
             (case parse_special neg body of
                Some d \<Rightarrow> Inr d
              | None \<Rightarrow> Inl InvalidOperation)))"

text \<open>
  \<open>Decimal(value)\<close> on a payload scalar: an integer converts exactly, a string is parsed,
  \<open>None\<close> raises \<open>TypeError\<close>.
\<close>

fun Decimal :: "jscalar \<Rightarrow> decimal result" where
  "Decimal JNull = Inl TypeError"
| "Decimal (JInt n) = Inr (DFinite (n < 0) (nat \<bar>n\<bar>) 0)"
| "Decimal (JStr s) = Decimal_of_string s"


section \<open>Trading-rule parsers\<close>

text \<open>
  \<open>_get_from_filters\<close>: the named field of the first filter whose \<open>filterType\<close> equals
  the wanted tag. The loop falls off the end when no filter matches, and the function then
  returns Python's \<open>None\<close>, which is \<open>JNull\<close> here.
\<close>

fun get_from_filters :: "jobject list \<Rightarrow> string \<Rightarrow> string \<Rightarrow> jscalar result" where
  "get_from_filters [] filter_type field_name = Inr JNull"
| "get_from_filters (f # fs) filter_type field_name =
     rbind (subscript f ''filterType'') (\<lambda>t.
       if t = JStr filter_type then subscript f field_name
       else get_from_filters fs filter_type field_name)"

text \<open>
  A trading rule is the dict the parser returns: its values are payload scalars copied
  verbatim, or decimals.
\<close>

datatype rule_val = Raw jscalar | Dec decimal

type_synonym trading_rule = "string \<rightharpoonup> rule_val"

text \<open>The value expressions of a dict display are evaluated in order; the first raise wins.\<close>

definition parse_usdt_futures_syminfo :: "syminfo \<Rightarrow> trading_rule result" where
  "parse_usdt_futures_syminfo info =
     rbind (info_filters info) (\<lambda>fs.
     rbind (subscript (attrs info) ''symbol'') (\<lambda>symbol.
     rbind (subscript (attrs info) ''contractType'') (\<lambda>contract_type.
     rbind (subscript (attrs info) ''status'') (\<lambda>status.
     rbind (subscript (attrs info) ''baseAsset'') (\<lambda>base_asset.
     rbind (subscript (attrs info) ''quoteAsset'') (\<lambda>quote_asset.
     rbind (subscript (attrs info) ''marginAsset'') (\<lambda>margin_asset.
     rbind (rbind (get_from_filters fs ''PRICE_FILTER'' ''tickSize'') Decimal) (\<lambda>price_tick.
     rbind (rbind (get_from_filters fs ''LOT_SIZE'' ''stepSize'') Decimal) (\<lambda>lot_size.
     rbind (rbind (get_from_filters fs ''MIN_NOTIONAL'' ''notional'') Decimal) (\<lambda>min_notional_value.
     Inr (map_of [
       (''symbol'', Raw symbol),
       (''contract_type'', Raw contract_type),
       (''status'', Raw status),
       (''base_asset'', Raw base_asset),
       (''quote_asset'', Raw quote_asset),
       (''margin_asset'', Raw margin_asset),
       (''price_tick'', Dec price_tick),
       (''lot_size'', Dec lot_size),
       (''min_notional_value'', Dec min_notional_value)])))))))))))"

definition parse_coin_futures_syminfo :: "syminfo \<Rightarrow> trading_rule result" where
  "parse_coin_futures_syminfo info =
     rbind (info_filters info) (\<lambda>fs.
     rbind (subscript (attrs info) ''symbol'') (\<lambda>symbol.
     rbind (subscript (attrs info) ''contractType'') (\<lambda>contract_type.
     rbind (subscript (attrs info) ''contractStatus'') (\<lambda>status.
     rbind (subscript (attrs info) ''baseAsset'') (\<lambda>base_asset.
     rbind (subscript (attrs info) ''quoteAsset'') (\<lambda>quote_asset.
     rbind (subscript (attrs info) ''marginAsset'') (\<lambda>margin_asset.
     rbind (rbind (get_from_filters fs ''PRICE_FILTER'' ''tickSize'') Decimal) (\<lambda>price_tick.
     rbind (rbind (subscript (attrs info) ''contractSize'') Decimal) (\<lambda>lot_size.
     Inr (map_of [
       (''symbol'', Raw symbol),
       (''contract_type'', Raw contract_type),
       (''status'', Raw status),
       (''base_asset'', Raw base_asset),
       (''quote_asset'', Raw quote_asset),
       (''margin_asset'', Raw margin_asset),
       (''price_tick'', Dec price_tick),
       (''lot_size'', Dec lot_size)]))))))))))"

definition parse_spot_syminfo :: "syminfo \<Rightarrow> trading_rule result" where
  "parse_spot_syminfo info =
     rbind (info_filters info) (\<lambda>fs.
     rbind (subscript (attrs info) ''symbol'') (\<lambda>symbol.
     rbind (subscript (attrs info) ''status'') (\<lambda>status.
     rbind (subscript (attrs info) ''baseAsset'') (\<lambda>base_asset.
     rbind (subscript (attrs info) ''quoteAsset'') (\<lambda>quote_asset.
     rbind (rbind (get_from_filters fs ''PRICE_FILTER'' ''tickSize'') Decimal) (\<lambda>price_tick.
     rbind (rbind (get_from_filters fs ''LOT_SIZE'' ''stepSize'') Decimal) (\<lambda>lot_size.
     rbind (rbind (get_from_filters fs ''NOTIONAL'' ''minNotional'') Decimal) (\<lambda>min_notional_value.
     Inr (map_of [
       (''symbol'', Raw symbol),
       (''status'', Raw status),
       (''base_asset'', Raw base_asset),
       (''quote_asset'', Raw quote_asset),
       (''price_tick'', Dec price_tick),
       (''lot_size'', Dec lot_size),
       (''min_notional_value'', Dec min_notional_value)])))))))))"

text \<open>\<open>BinanceFetcher.TYPE_MAP\<close>: the parser of each supported venue type.\<close>

definition TYPE_MAP :: "string \<rightharpoonup> (syminfo \<Rightarrow> trading_rule result)" where
  "TYPE_MAP = map_of [
     (''usdt_futures'', parse_usdt_futures_syminfo),
     (''coin_futures'', parse_coin_futures_syminfo),
     (''spot'', parse_spot_syminfo)]"

section \<open>The fetcher and its transport\<close>

text \<open>
  An awaited operation runs against the outside world \<open>'w\<close> (the venue, as the transport
  sees it): it returns a result or raises, and leaves the world as its requests made it.
  An operation that issues no request returns the world it was given.
\<close>

type_synonym ('w, 'a) awaitable = "'w \<Rightarrow> 'a result \<times> 'w"

definition abind :: "('w, 'a) awaitable \<Rightarrow> ('a \<Rightarrow> ('w, 'b) awaitable) \<Rightarrow> ('w, 'b) awaitable" where
  "abind m f = (\<lambda>w. case m w of (Inl e, w') \<Rightarrow> (Inl e, w') | (Inr v, w') \<Rightarrow> f v w')"

definition ready :: "'a result \<Rightarrow> ('w, 'a) awaitable" where
  "ready r = (\<lambda>w. (r, w))"

text \<open>
  The market transport of one venue type, with the requests this module awaits. Raw candle
  fields are cells of type \<open>'c\<close>; \<open>'k\<close> is the extra keyword arguments of a candle request.
\<close>

record ('w, 'c, 'k) binance_market_api =
  aioreq_exchange_info :: "('w, string \<rightharpoonup> syminfo list) awaitable"
  aioreq_klines :: "string \<Rightarrow> string \<Rightarrow> 'k \<Rightarrow> ('w, 'c list list) awaitable"
  aioreq_premium_index :: "('w, jobject list) awaitable"

record ('w, 'c, 'k) BinanceFetcher =
  trade_type :: string
  market_api :: "('w, 'c, 'k) binance_market_api"
  syminfo_parse_func :: "syminfo \<Rightarrow> trading_rule result"


text \<open>
  The loop of \<open>get_exchange_info\<close>: in \<open>results[info['symbol']] = parse(info)\<close> the right
  side is evaluated first, then the key.
\<close>

fun parse_symbols ::
  "(syminfo \<Rightarrow> trading_rule result) \<Rightarrow> syminfo list \<Rightarrow> (jscalar \<rightharpoonup> trading_rule)
     \<Rightarrow> (jscalar \<rightharpoonup> trading_rule) result" where
  "parse_symbols parse [] results = Inr results"
| "parse_symbols parse (info # infos) results =
     rbind (parse info) (\<lambda>rule.
     rbind (subscript (attrs info) ''symbol'') (\<lambda>symbol.
       parse_symbols parse infos (results(symbol \<mapsto> rule))))"

text \<open>
  \<open>get_exchange_info\<close>. The retry collaborator \<open>async_retry_getter\<close> is a parameter: it
  turns the request into an awaited operation of the same type.
\<close>

definition get_exchange_info ::
  "(('w, string \<rightharpoonup> syminfo list) awaitable \<Rightarrow> ('w, string \<rightharpoonup> syminfo list) awaitable)
     \<Rightarrow> ('w, 'c, 'k) BinanceFetcher \<Rightarrow> ('w, jscalar \<rightharpoonup> trading_rule) awaitable" where
  "get_exchange_info async_retry_getter self =
     abind (async_retry_getter (aioreq_exchange_info (market_api self))) (\<lambda>exg_info.
       ready (rbind (subscript exg_info ''symbols'') (\<lambda>infos.
               parse_symbols (syminfo_parse_func self) infos Map.empty)))"

section \<open>Candle tables\<close>

text \<open>
  A normalized candle table, column by column. \<open>index\<close> is the frame's index, which
  \<open>set_index('candle_end_time')\<close> fills with the end times. Instants are milliseconds since
  the epoch, UTC. \<open>'f\<close> is the type of floating-point values, \<open>'n\<close> the type of the
  \<open>trade_num\<close> column. The raw columns \<open>close_time\<close> and \<open>ignore\<close> are dropped.
\<close>

record ('f, 'n) candle_frame =
  index :: "int list"
  candle_begin_time :: "int list"
  open_price :: "'f list"
  high :: "'f list"
  low :: "'f list"
  close :: "'f list"
  volume :: "'f list"
  quote_volume :: "'f list"
  trade_num :: "'n list"
  taker_buy_base_asset_volume :: "'f list"
  taker_buy_quote_asset_volume :: "'f list"

text \<open>
  \<open>pd.DataFrame(klines, columns=columns)\<close> with the twelve column names: every raw record
  must be twelve cells wide. (A batch with records of other widths is taken as rejected.)
\<close>

definition DataFrame :: "'c list list \<Rightarrow> 'c list list result" where
  "DataFrame klines =
     (if list_all (\<lambda>r. length r = 12) klines then Inr klines else Inl ValueError)"

text \<open>The column at a position: 0 is \<open>candle_begin_time\<close>, 1 \<open>open\<close>, ..., 11 \<open>ignore\<close>.\<close>

definition column :: "'c list list \<Rightarrow> nat \<Rightarrow> 'c list" where
  "column df i = map (\<lambda>r. r ! i) df"

text \<open>
  pandas keeps an instant as signed 64-bit nanoseconds. \<open>pd.to_datetime(..., unit='ms')\<close>
  raises when the instant does not fit, and so does adding a duration.
\<close>

definition ns_in_bounds :: "int \<Rightarrow> bool" where
  "ns_in_bounds n = (- (2 ^ 63) < n \<and> n < 2 ^ 63)"

definition to_datetime_ms :: "int \<Rightarrow> int result" where
  "to_datetime_ms ms = (if ns_in_bounds (ms * 1000000) then Inr ms else Inl OutOfBoundsDatetime)"

definition add_timedelta :: "int \<Rightarrow> int \<Rightarrow> int result" where
  "add_timedelta delta t =
     (if ns_in_bounds ((t + delta) * 1000000) then Inr (t + delta) else Inl OverflowError)"

text \<open>
  \<open>get_candle_with_original_pandas\<close>. The casts of raw cells (\<open>astype('int64')\<close>,
  \<open>astype(float)\<close>) belong to the column library and are parameters, and so is the
  collaborator \<open>convert_interval_to_timedelta\<close>, which gives the duration of an interval
  tag in milliseconds or raises. The rows stay in the order of the batch.
\<close>

definition get_candle_with_original_pandas ::
  "('c \<Rightarrow> int result) \<Rightarrow> ('c \<Rightarrow> 'f result) \<Rightarrow> (string \<Rightarrow> int result)
     \<Rightarrow> 'c list list \<Rightarrow> string \<Rightarrow> ('f, 'f) candle_frame result" where
  "get_candle_with_original_pandas astype_int64 astype_float convert_interval_to_timedelta
       klines interval =
     rbind (DataFrame klines) (\<lambda>df.
     rbind (rbind (traverse astype_int64 (column df 0)) (traverse to_datetime_ms)) (\<lambda>begin_time.
     rbind (traverse astype_float (column df 1)) (\<lambda>c_open.
     rbind (traverse astype_float (column df 2)) (\<lambda>c_high.
     rbind (traverse astype_float (column df 3)) (\<lambda>c_low.
     rbind (traverse astype_float (column df 4)) (\<lambda>c_close.
     rbind (traverse astype_float (column df 5)) (\<lambda>c_volume.
     rbind (traverse astype_float (column df 7)) (\<lambda>c_quote_volume.
     rbind (traverse astype_float (column df 8)) (\<lambda>c_trade_num.
     rbind (traverse astype_float (column df 9)) (\<lambda>c_taker_base.
     rbind (traverse astype_float (column df 10)) (\<lambda>c_taker_quote.
     rbind (convert_interval_to_timedelta interval) (\<lambda>delta.
     rbind (traverse (add_timedelta delta) begin_time) (\<lambda>end_time.
     Inr \<lparr>index = end_time,
          candle_begin_time = begin_time,
          open_price = c_open,
          high = c_high,
          low = c_low,
          close = c_close,
          volume = c_volume,
          quote_volume = c_quote_volume,
          trade_num = c_trade_num,
          taker_buy_base_asset_volume = c_taker_base,
          taker_buy_quote_asset_volume = c_taker_quote\<rparr>)))))))))))))"

text \<open>
  Sorting a frame by a key column moves every column by the same permutation of the row
  positions. \<open>reorder p col\<close> is the column with the rows taken in the order \<open>p\<close>.
\<close>

definition reorder :: "nat list \<Rightarrow> 'a list \<Rightarrow> 'a list" where
  "reorder p col = map (\<lambda>i. col ! i) p"

text \<open>
  What a sort by a key column promises of the order it picks: a permutation of the row
  positions that puts the keys in non-decreasing order. It promises nothing on the order of
  rows with equal keys.
\<close>

definition is_argsort :: "int list \<Rightarrow> nat list \<Rightarrow> bool" where
  "is_argsort keys p = (sort p = [0 ..< length keys] \<and> sorted (reorder p keys))"

text \<open>
  The type of a column of a pandas frame: 64-bit integers, 64-bit floats, or instants with
  a time zone, stored as a count of units since the epoch.
\<close>

datatype time_unit = Unit_ns | Unit_ms

datatype dtype = Int64 | Float64 | Datetime time_unit string

text \<open>
  A candle table together with the names and types of its columns, in column order. The
  index is recorded by its values: the unit of the end times is that of the pandas sum
  \<open>df['candle_begin_time'] + convert_interval_to_timedelta(interval)\<close>, which depends on
  the type of duration the collaborator returns.
\<close>

record ('f, 'n) typed_candle_frame = "('f, 'n) candle_frame" +
  dtypes :: "(string \<times> dtype) list"

text \<open>Giving one column a new type.\<close>

definition with_dtype :: "string \<Rightarrow> dtype \<Rightarrow> (string \<times> dtype) list \<Rightarrow> (string \<times> dtype) list" where
  "with_dtype name d cols = map (\<lambda>(n, t). if n = name then (n, d) else (n, t)) cols"

text \<open>
  The dict \<open>dtypes\<close> of \<open>get_candle_with_pandas\<close>; Python's \<open>int\<close> and \<open>float\<close> name
  the 64-bit column types.
\<close>

definition pandas_dtypes :: "(string \<times> dtype) list" where
  "pandas_dtypes =
     [(''candle_begin_time'', Int64),
      (''open'', Float64),
      (''high'', Float64),
      (''low'', Float64),
      (''close'', Float64),
      (''volume'', Float64),
      (''quote_volume'', Float64),
      (''trade_num'', Int64),
      (''taker_buy_base_asset_volume'', Float64),
      (''taker_buy_quote_asset_volume'', Float64)]"

text \<open>
  The dict \<open>schema\<close> of \<open>get_candle_with_polar\<close>; \<open>None\<close> leaves the type of a column
  to inference. \<open>drop\<close> removes columns by name; the columns that stay are the ones with a
  declared type.
\<close>

definition polar_schema :: "(string \<times> dtype option) list" where
  "polar_schema =
     [(''candle_begin_time'', Some Int64),
      (''open'', Some Float64),
      (''high'', Some Float64),
      (''low'', Some Float64),
      (''close'', Some Float64),
      (''volume'', Some Float64),
      (''close_time'', None),
      (''quote_volume'', Some Float64),
      (''trade_num'', Some Int64),
      (''taker_buy_base_asset_volume'', Some Float64),
      (''taker_buy_quote_asset_volume'', Some Float64),
      (''ignore'', None)]"

definition drop_columns :: "string list \<Rightarrow> (string \<times> 'a) list \<Rightarrow> (string \<times> 'a) list" where
  "drop_columns names cols = filter (\<lambda>(n, t). n \<notin> set names) cols"

definition declared :: "(string \<times> dtype option) list \<Rightarrow> (string \<times> dtype) list" where
  "declared cols = List.map_filter (\<lambda>(n, t). map_option (Pair n) t) cols"

text \<open>
  \<open>get_candle_with_pandas\<close>: \<open>astype(dtypes)\<close> casts column by column, then
  \<open>pd.to_datetime(..., unit='ms', utc=True)\<close> turns the begin times into instants, which
  pandas stores in nanoseconds, \<open>sort_values\<close> (a parameter, giving the row order) sorts
  on them, and the end times are derived from the sorted begin times.
\<close>

definition get_candle_with_pandas ::
  "('c \<Rightarrow> int result) \<Rightarrow> ('c \<Rightarrow> 'f result) \<Rightarrow> (int list \<Rightarrow> nat list)
     \<Rightarrow> (string \<Rightarrow> int result) \<Rightarrow> 'c list list \<Rightarrow> string
     \<Rightarrow> ('f, int) typed_candle_frame result" where
  "get_candle_with_pandas astype_int astype_float sort_values convert_interval_to_timedelta
       klines interval =
     rbind (DataFrame klines) (\<lambda>df.
     rbind (traverse astype_int (column df 0)) (\<lambda>begin_ms.
     rbind (traverse astype_float (column df 1)) (\<lambda>c_open.
     rbind (traverse astype_float (column df 2)) (\<lambda>c_high.
     rbind (traverse astype_float (column df 3)) (\<lambda>c_low.
     rbind (traverse astype_float (column df 4)) (\<lambda>c_close.
     rbind (traverse astype_float (column df 5)) (\<lambda>c_volume.
     rbind (traverse astype_float (column df 7)) (\<lambda>c_quote_volume.
     rbind (traverse astype_int (column df 8)) (\<lambda>c_trade_num.
     rbind (traverse astype_float (column df 9)) (\<lambda>c_taker_base.
     rbind (traverse astype_float (column df 10)) (\<lambda>c_taker_quote.
     rbind (traverse to_datetime_ms begin_ms) (\<lambda>begin_time.
     let p = sort_values begin_time in
     rbind (convert_interval_to_timedelta interval) (\<lambda>delta.
     rbind (traverse (add_timedelta delta) (reorder p begin_time)) (\<lambda>end_time.
     Inr \<lparr>index = end_time,
          candle_begin_time = reorder p begin_time,
          open_price = reorder p c_open,
          high = reorder p c_high,
          low = reorder p c_low,
          close = reorder p c_close,
          volume = reorder p c_volume,
          quote_volume = reorder p c_quote_volume,
          trade_num = reorder p c_trade_num,
          taker_buy_base_asset_volume = reorder p c_taker_base,
          taker_buy_quote_asset_volume = reorder p c_taker_quote,
          dtypes = with_dtype ''candle_begin_time'' (Datetime Unit_ns ''UTC'') pandas_dtypes\<rparr>
     ))))))))))))))"

text \<open>
  \<open>get_candle_with_polar\<close>: the frame is built with the schema's casts (\<open>Int64\<close>,
  \<open>Float64\<close>, parameters of their own, since they are another library's), the two
  untyped columns are dropped, \<open>cast(pl.Datetime('ms'))\<close> with
  \<open>replace_time_zone('UTC')\<close> makes the begin times instants stored in milliseconds, and
  \<open>sort\<close> (a parameter) sorts on them. \<open>to_pandas\<close> hands every column over with the
  type it has. The end-time column computed inside the lazy frame is overwritten after the
  conversion by the same pandas sum as in the other variants, so only that sum reaches the
  result.
\<close>

definition get_candle_with_polar ::
  "('c \<Rightarrow> int result) \<Rightarrow> ('c \<Rightarrow> 'f result) \<Rightarrow> (int list \<Rightarrow> nat list)
     \<Rightarrow> (string \<Rightarrow> int result) \<Rightarrow> 'c list list \<Rightarrow> string
     \<Rightarrow> ('f, int) typed_candle_frame result" where
  "get_candle_with_polar pl_Int64 pl_Float64 pl_sort convert_interval_to_timedelta
       klines interval =
     rbind (DataFrame klines) (\<lambda>lf.
     rbind (traverse pl_Int64 (column lf 0)) (\<lambda>begin_time.
     rbind (traverse pl_Float64 (column lf 1)) (\<lambda>c_open.
     rbind (traverse pl_Float64 (column lf 2)) (\<lambda>c_high.
     rbind (traverse pl_Float64 (column lf 3)) (\<lambda>c_low.
     rbind (traverse pl_Float64 (column lf 4)) (\<lambda>c_close.
     rbind (traverse pl_Float64 (column lf 5)) (\<lambda>c_volume.
     rbind (traverse pl_Float64 (column lf 7)) (\<lambda>c_quote_volume.
     rbind (traverse pl_Int64 (column lf 8)) (\<lambda>c_trade_num.
     rbind (traverse pl_Float64 (column lf 9)) (\<lambda>c_taker_base.
     rbind (traverse pl_Float64 (column lf 10)) (\<lambda>c_taker_quote.
     let p = pl_sort begin_time in
     rbind (convert_interval_to_timedelta interval) (\<lambda>delta.
     rbind (traverse (add_timedelta delta) (reorder p begin_time)) (\<lambda>end_time.
     Inr \<lparr>index = end_time,
          candle_begin_time = reorder p begin_time,
          open_price = reorder p c_open,
          high = reorder p c_high,
          low = reorder p c_low,
          close = reorder p c_close,
          volume = reorder p c_volume,
          quote_volume = reorder p c_quote_volume,
          trade_num = reorder p c_trade_num,
          taker_buy_base_asset_volume = reorder p c_taker_base,
          taker_buy_quote_asset_volume = reorder p c_taker_quote,
          dtypes = with_dtype ''candle_begin_time'' (Datetime Unit_ms ''UTC'')
                     (declared (drop_columns [''close_time'', ''ignore''] polar_schema))\<rparr>
     )))))))))))))"

text \<open>\<open>get_candle\<close>: the retried candle request, then the original normalization.\<close>

definition get_candle ::
  "(('w, 'c list list) awaitable \<Rightarrow> ('w, 'c list list) awaitable)
     \<Rightarrow> ('c \<Rightarrow> int result) \<Rightarrow> ('c \<Rightarrow> 'f result) \<Rightarrow> (string \<Rightarrow> int result)
     \<Rightarrow> ('w, 'c, 'k) BinanceFetcher \<Rightarrow> string \<Rightarrow> string \<Rightarrow> 'k
     \<Rightarrow> ('w, ('f, 'f) candle_frame) awaitable" where
  "get_candle async_retry_getter astype_int64 astype_float convert_interval_to_timedelta
       self symbol interval kwargs =
     abind (async_retry_getter (aioreq_klines (market_api self) symbol interval kwargs)) (\<lambda>data.
       ready (get_candle_with_original_pandas astype_int64 astype_float
               convert_interval_to_timedelta data interval))"

section \<open>Funding rates\<close>

text \<open>
  \<open>pd.to_numeric(x, errors='coerce')\<close>: the numeric reading of a scalar is the library's
  and is a parameter (\<open>None\<close> when the scalar has no numeric reading); with
  \<open>errors='coerce'\<close> a scalar without one becomes \<open>NaN\<close> instead of raising.
\<close>

datatype 'n coerced = NaN | Num 'n

definition to_numeric_coerce :: "(jscalar \<Rightarrow> 'n option) \<Rightarrow> jscalar \<Rightarrow> 'n coerced" where
  "to_numeric_coerce numeric x = (case numeric x of None \<Rightarrow> NaN | Some v \<Rightarrow> Num v)"

record 'n funding_row =
  symbol :: jscalar
  fundingRate :: "'n coerced"

definition funding_record :: "(jscalar \<Rightarrow> 'n option) \<Rightarrow> jobject \<Rightarrow> 'n funding_row result" where
  "funding_record numeric d =
     rbind (subscript d ''symbol'') (\<lambda>s.
     rbind (subscript d ''lastFundingRate'') (\<lambda>r.
       Inr \<lparr>symbol = s, fundingRate = to_numeric_coerce numeric r\<rparr>))"

definition get_funding_rate ::
  "(jscalar \<Rightarrow> 'n option) \<Rightarrow> ('w, 'c, 'k) BinanceFetcher \<Rightarrow> ('w, 'n funding_row list) awaitable" where
  "get_funding_rate numeric self =
     (if trade_type self = ''spot'' then ready (Inl RuntimeError)
      else abind (aioreq_premium_index (market_api self)) (\<lambda>data.
             ready (traverse (funding_record numeric) data)))"

section \<open>Predicates and sample inputs\<close>

text \<open>A symbol-info object has a filter of the given type.\<close>

definition has_filter :: "syminfo \<Rightarrow> string \<Rightarrow> bool" where
  "has_filter info filter_type =
     (case filters info of
        None \<Rightarrow> False
      | Some fs \<Rightarrow> list_ex (\<lambda>f. f ''filterType'' = Some (JStr filter_type)) fs)"


text \<open>
  A USDT-margined-futures symbol with tick size 0.10, step size 0.001 and minimum
  notional 5, and the same symbol with the tick size 0, which the venue uses for a
  disabled price filter.
\<close>

definition usdt_info :: "string \<Rightarrow> syminfo" where
  "usdt_info tick_size =
     \<lparr>attrs = map_of [
        (''symbol'', JStr ''BTCUSDT''),
        (''contractType'', JStr ''PERPETUAL''),
        (''status'', JStr ''TRADING''),
        (''baseAsset'', JStr ''BTC''),
        (''quoteAsset'', JStr ''USDT''),
        (''marginAsset'', JStr ''USDT'')],
      filters = Some [
        map_of [(''filterType'', JStr ''PRICE_FILTER''), (''tickSize'', JStr tick_size)],
        map_of [(''filterType'', JStr ''LOT_SIZE''), (''stepSize'', JStr ''0.001'')],
        map_of [(''filterType'', JStr ''MIN_NOTIONAL''), (''notional'', JStr ''5'')]]\<rparr>"

text \<open>The same symbol with a filter list that has lost every required filter.\<close>

definition unfiltered_info :: syminfo where
  "unfiltered_info =
     (usdt_info ''0.10'')
       \<lparr>filters := Some [map_of [(''filterType'', JStr ''MAX_NUM_ORDERS''), (''limit'', JInt 200)]]\<rparr>"

text \<open>
  A transport stub that records its use: the world is the number of requests sent so far,
  and every request answers with a fixed payload. The factory stub hands out a transport
  without sending anything.
\<close>

definition recording_transport ::
  "(string \<rightharpoonup> syminfo list) \<Rightarrow> int list list \<Rightarrow> jobject list \<Rightarrow> (nat, int, unit) binance_market_api" where
  "recording_transport exg klines funding =
     \<lparr>aioreq_exchange_info = (\<lambda>w. (Inr exg, Suc w)),
      aioreq_klines = (\<lambda>symbol interval kwargs w. (Inr klines, Suc w)),
      aioreq_premium_index = (\<lambda>w. (Inr funding, Suc w))\<rparr>"



text \<open>A fetcher bound to a venue type over a transport.\<close>

definition bound_fetcher ::
  "string \<Rightarrow> (syminfo \<Rightarrow> trading_rule result) \<Rightarrow> (nat, int, unit) binance_market_api
     \<Rightarrow> (nat, int, unit) BinanceFetcher" where
  "bound_fetcher venue_type parse api =
     \<lparr>trade_type = venue_type, market_api = api, syminfo_parse_func = parse\<rparr>"

text \<open>
  Modelled from the spec: the interval-to-duration collaborator
  \<open>convert_interval_to_timedelta\<close> is not part of this module. The spec names the tags
  1m, 1h (one hour) and 1d (24 hours) and has every unrecognized tag fail. Durations are in
  milliseconds.
\<close>

definition duration_of :: "string \<Rightarrow> int result" where
  "duration_of tag =
     (case map_of [(''1m'', 60000), (''1h'', 3600000), (''1d'', 86400000)] tag of
        Some d \<Rightarrow> Inr d
      | None \<Rightarrow> Inl ValueError)"

text \<open>
  Casts for a batch whose cells are all JSON integers: an integer cell is an \<open>int64\<close> when
  it fits, and its float is the integer itself when a float holds it exactly.
\<close>

definition int_cell_int64 :: "int \<Rightarrow> int result" where
  "int_cell_int64 n = (if - (2 ^ 63) \<le> n \<and> n < 2 ^ 63 then Inr n else Inl OverflowError)"

definition int_cell_float :: "int \<Rightarrow> int result" where
  "int_cell_float n = (if \<bar>n\<bar> \<le> 2 ^ 53 then Inr n else Inl ValueError)"

text \<open>A sort order that keeps rows with equal keys in their order of arrival.\<close>

definition stable_argsort :: "int list \<Rightarrow> nat list" where
  "stable_argsort keys = map snd (sort_key fst (zip keys [0 ..< length keys]))"

text \<open>A sort order that puts rows with equal keys in the reverse of their order of arrival.\<close>

definition reversing_argsort :: "int list \<Rightarrow> nat list" where
  "reversing_argsort keys =
     rev (map snd (sort_key (\<lambda>z. - fst z) (zip keys [0 ..< length keys])))"

text \<open>Two one-hour candles with the same begin time.\<close>

definition repeated_hour_batch :: "int list list" where
  "repeated_hour_batch =
     [[0, 12, 15, 11, 14, 100, 3599999, 1300, 42, 60, 780, 0],
      [0, 10, 13, 9, 12, 90, 3599999, 990, 37, 50, 550, 0]]"

text \<open>
  Two one-hour candles, the later one first: begin times 3600000 and 0. The other cells
  are open, high, low, close, volume, close time, quote volume, trade count, the two
  taker volumes and the ignored field.
\<close>

definition reverse_hour_batch :: "int list list" where
  "reverse_hour_batch =
     [[3600000, 12, 15, 11, 14, 100, 7199999, 1300, 42, 60, 780, 0],
      [0, 10, 13, 9, 12, 90, 3599999, 990, 37, 50, 550, 0]]"

text \<open>
  Two pairs of casts over payload scalars. The first pair reads numbers and numeric text;
  the float it returns is stood for by the decimal that was read. The second pair takes
  numbers only and rejects text.
\<close>

definition text_reading_int :: "jscalar \<Rightarrow> int result" where
  "text_reading_int x =
     (case x of
        JNull \<Rightarrow> Inl TypeError
      | JInt n \<Rightarrow> Inr n
      | JStr s \<Rightarrow>
          (case Decimal_of_string s of
             Inr (DFinite neg c e) \<Rightarrow>
               if e = 0 then Inr (if neg then - int c else int c) else Inl ValueError
           | _ \<Rightarrow> Inl ValueError))"

definition text_reading_float :: "jscalar \<Rightarrow> decimal result" where
  "text_reading_float x =
     (case x of
        JNull \<Rightarrow> Inl TypeError
      | _ \<Rightarrow> (case Decimal x of Inr d \<Rightarrow> Inr d | Inl err \<Rightarrow> Inl ValueError))"

definition numbers_only_int :: "jscalar \<Rightarrow> int result" where
  "numbers_only_int x = (case x of JInt n \<Rightarrow> Inr n | _ \<Rightarrow> Inl TypeError)"

definition numbers_only_float :: "jscalar \<Rightarrow> decimal result" where
  "numbers_only_float x = (case x of JInt n \<Rightarrow> Decimal (JInt n) | _ \<Rightarrow> Inl TypeError)"


definition venue_batch :: "jscalar list list" where
  "venue_batch =
     [[JInt 3600000, JStr ''12.0'', JStr ''15.0'', JStr ''11.0'', JStr ''14.0'', JStr ''10.5'',
       JInt 7199999, JStr ''13.25'', JInt 42, JStr ''6.5'', JStr ''7.8'', JStr ''0''],
      [JInt 0, JStr ''10.0'', JStr ''13.0'', JStr ''9.0'', JStr ''12.0'', JStr ''9.5'',
       JInt 3599999, JStr ''9.75'', JInt 37, JStr ''5.5'', JStr ''5.5'', JStr ''0'']]"

text \<open>
  A funding listing with one numeric rate and one placeholder, and a numeric reading of
  scalars that accepts integers and finite decimal literals.
\<close>

definition funding_listing :: "jobject list" where
  "funding_listing =
     [map_of [(''symbol'', JStr ''BTCUSDT''), (''lastFundingRate'', JStr ''0.0001'')],
      map_of [(''symbol'', JStr ''XYZUSDT''), (''lastFundingRate'', JStr ''-'')]]"

definition decimal_reading :: "jscalar \<Rightarrow> decimal option" where
  "decimal_reading x =
     (case Decimal x of
        Inr (DFinite neg c e) \<Rightarrow> Some (DFinite neg c e)
      | _ \<Rightarrow> None)"

text \<open>An exchange-info payload that lists the same symbol twice, with different tick sizes.\<close>

definition repeated_symbol_payload :: "string \<rightharpoonup> syminfo list" where
  "repeated_symbol_payload = map_of [(''symbols'', [usdt_info ''0.10'', usdt_info ''0.50''])]"

section \<open>Reasoning about results\<close>

lemma rbind_Inr_iff: "rbind m f = Inr r \<longleftrightarrow> (\<exists>v. m = Inr v \<and> f v = Inr r)"
  by (cases m) (simp_all add: rbind_def)

lemma rbind_InrE:
  assumes "rbind m f = Inr r"
  obtains v where "m = Inr v" and "f v = Inr r"
  using assms by (auto simp: rbind_Inr_iff)

lemma isl_rbind: "isl (rbind m f) \<longleftrightarrow> isl m \<or> (\<exists>v. m = Inr v \<and> isl (f v))"
  by (cases m) (simp_all add: rbind_def)

lemma subscript_Inr_iff: "subscript d k = Inr v \<longleftrightarrow> d k = Some v"
  by (simp add: subscript_def split: option.splits)

lemma info_filters_Inr_iff: "info_filters info = Inr fs \<longleftrightarrow> filters info = Some fs"
  by (simp add: info_filters_def split: option.splits)

section \<open>Properties of the trading-rule parsers\<close>

lemma get_from_filters_no_entry:
  "\<not> list_ex (\<lambda>f. f ''filterType'' = Some (JStr ft)) fs \<Longrightarrow>
   get_from_filters fs ft fn = Inl KeyError \<or> get_from_filters fs ft fn = Inr JNull"
  by (induction fs) (auto simp: rbind_def subscript_def split: option.splits)

lemma Decimal_needs_entry:
  assumes "filters info = Some fs" and "get_from_filters fs ft fn = Inr v"
    and "Decimal v = Inr d"
  shows "has_filter info ft"
proof (rule ccontr)
  assume "\<not> has_filter info ft"
  with assms(1) have "\<not> list_ex (\<lambda>f. f ''filterType'' = Some (JStr ft)) fs"
    by (simp add: has_filter_def)
  from get_from_filters_no_entry [OF this, of fn] assms(2) have "v = JNull" by auto
  with assms(3) show False by simp
qed

lemma usdt_shape:
  assumes "parse_usdt_futures_syminfo info = Inr rule"
  obtains fs tick lot notional pt ls mn where
    "filters info = Some fs"
    "get_from_filters fs ''PRICE_FILTER'' ''tickSize'' = Inr tick" "Decimal tick = Inr pt"
    "get_from_filters fs ''LOT_SIZE'' ''stepSize'' = Inr lot" "Decimal lot = Inr ls"
    "get_from_filters fs ''MIN_NOTIONAL'' ''notional'' = Inr notional" "Decimal notional = Inr mn"
    "rule ''price_tick'' = Some (Dec pt)" "rule ''lot_size'' = Some (Dec ls)"
    "rule ''min_notional_value'' = Some (Dec mn)"
proof -
  from assms obtain fs symbol contract_type status base_asset quote_asset margin_asset
      tick pt lot ls notional mn
    where f: "info_filters info = Inr fs"
      and t: "get_from_filters fs ''PRICE_FILTER'' ''tickSize'' = Inr tick" "Decimal tick = Inr pt"
      and l: "get_from_filters fs ''LOT_SIZE'' ''stepSize'' = Inr lot" "Decimal lot = Inr ls"
      and n: "get_from_filters fs ''MIN_NOTIONAL'' ''notional'' = Inr notional"
        "Decimal notional = Inr mn"
      and r: "Inr (map_of [
       (''symbol'', Raw symbol),
       (''contract_type'', Raw contract_type),
       (''status'', Raw status),
       (''base_asset'', Raw base_asset),
       (''quote_asset'', Raw quote_asset),
       (''margin_asset'', Raw margin_asset),
       (''price_tick'', Dec pt),
       (''lot_size'', Dec ls),
       (''min_notional_value'', Dec mn)]) = (Inr rule :: trading_rule result)"
    unfolding parse_usdt_futures_syminfo_def by (elim rbind_InrE) blast
  from r have rule: "rule = map_of [
       (''symbol'', Raw symbol),
       (''contract_type'', Raw contract_type),
       (''status'', Raw status),
       (''base_asset'', Raw base_asset),
       (''quote_asset'', Raw quote_asset),
       (''margin_asset'', Raw margin_asset),
       (''price_tick'', Dec pt),
       (''lot_size'', Dec ls),
       (''min_notional_value'', Dec mn)]" by simp
  have v: "rule ''price_tick'' = Some (Dec pt)" "rule ''lot_size'' = Some (Dec ls)"
    "rule ''min_notional_value'' = Some (Dec mn)"
    unfolding rule by simp_all
  from f have "filters info = Some fs" by (simp add: info_filters_Inr_iff)
  from this t l n v show ?thesis by (rule that)
qed

lemma spot_shape:
  assumes "parse_spot_syminfo info = Inr rule"
  obtains fs tick lot notional pt ls mn where
    "filters info = Some fs"
    "get_from_filters fs ''PRICE_FILTER'' ''tickSize'' = Inr tick" "Decimal tick = Inr pt"
    "get_from_filters fs ''LOT_SIZE'' ''stepSize'' = Inr lot" "Decimal lot = Inr ls"
    "get_from_filters fs ''NOTIONAL'' ''minNotional'' = Inr notional" "Decimal notional = Inr mn"
    "rule ''price_tick'' = Some (Dec pt)" "rule ''lot_size'' = Some (Dec ls)"
    "rule ''min_notional_value'' = Some (Dec mn)"
proof -
  from assms obtain fs symbol status base_asset quote_asset tick pt lot ls notional mn
    where f: "info_filters info = Inr fs"
      and t: "get_from_filters fs ''PRICE_FILTER'' ''tickSize'' = Inr tick" "Decimal tick = Inr pt"
      and l: "get_from_filters fs ''LOT_SIZE'' ''stepSize'' = Inr lot" "Decimal lot = Inr ls"
      and n: "get_from_filters fs ''NOTIONAL'' ''minNotional'' = Inr notional"
        "Decimal notional = Inr mn"
      and r: "Inr (map_of [
       (''symbol'', Raw symbol),
       (''status'', Raw status),
       (''base_asset'', Raw base_asset),
       (''quote_asset'', Raw quote_asset),
       (''price_tick'', Dec pt),
       (''lot_size'', Dec ls),
       (''min_notional_value'', Dec mn)]) = (Inr rule :: trading_rule result)"
    unfolding parse_spot_syminfo_def by (elim rbind_InrE) blast
  from r have rule: "rule = map_of [
       (''symbol'', Raw symbol),
       (''status'', Raw status),
       (''base_asset'', Raw base_asset),
       (''quote_asset'', Raw quote_asset),
       (''price_tick'', Dec pt),
       (''lot_size'', Dec ls),
       (''min_notional_value'', Dec mn)]" by simp
  have v: "rule ''price_tick'' = Some (Dec pt)" "rule ''lot_size'' = Some (Dec ls)"
    "rule ''min_notional_value'' = Some (Dec mn)"
    unfolding rule by simp_all
  from f have "filters info = Some fs" by (simp add: info_filters_Inr_iff)
  from this t l n v show ?thesis by (rule that)
qed

lemma coin_shape:
  assumes "parse_coin_futures_syminfo info = Inr rule"
  obtains fs tick lot pt ls where
    "filters info = Some fs"
    "get_from_filters fs ''PRICE_FILTER'' ''tickSize'' = Inr tick" "Decimal tick = Inr pt"
    "attrs info ''contractSize'' = Some lot" "Decimal lot = Inr ls"
    "rule ''price_tick'' = Some (Dec pt)" "rule ''lot_size'' = Some (Dec ls)"
    "rule ''min_notional_value'' = None"
proof -
  from assms obtain fs symbol contract_type status base_asset quote_asset margin_asset
      tick pt lot ls
    where f: "info_filters info = Inr fs"
      and t: "get_from_filters fs ''PRICE_FILTER'' ''tickSize'' = Inr tick" "Decimal tick = Inr pt"
      and l: "subscript (attrs info) ''contractSize'' = Inr lot" "Decimal lot = Inr ls"
      and r: "Inr (map_of [
       (''symbol'', Raw symbol),
       (''contract_type'', Raw contract_type),
       (''status'', Raw status),
       (''base_asset'', Raw base_asset),
       (''quote_asset'', Raw quote_asset),
       (''margin_asset'', Raw margin_asset),
       (''price_tick'', Dec pt),
       (''lot_size'', Dec ls)]) = (Inr rule :: trading_rule result)"
    unfolding parse_coin_futures_syminfo_def by (elim rbind_InrE) blast
  from r have rule: "rule = map_of [
       (''symbol'', Raw symbol),
       (''contract_type'', Raw contract_type),
       (''status'', Raw status),
       (''base_asset'', Raw base_asset),
       (''quote_asset'', Raw quote_asset),
       (''margin_asset'', Raw margin_asset),
       (''price_tick'', Dec pt),
       (''lot_size'', Dec ls)]" by simp
  have v: "rule ''price_tick'' = Some (Dec pt)" "rule ''lot_size'' = Some (Dec ls)"
    "rule ''min_notional_value'' = None"
    unfolding rule by simp_all
  from f have f': "filters info = Some fs" by (simp add: info_filters_Inr_iff)
  from l(1) have "attrs info ''contractSize'' = Some lot" by (simp add: subscript_Inr_iff)
  from f' t this l(2) v show ?thesis by (rule that)
qed

lemma TYPE_MAP_cases:
  assumes "TYPE_MAP venue = Some parse"
  obtains "venue = ''usdt_futures''" "parse = parse_usdt_futures_syminfo"
  | "venue = ''coin_futures''" "parse = parse_coin_futures_syminfo"
  | "venue = ''spot''" "parse = parse_spot_syminfo"
  using assms by (auto simp: TYPE_MAP_def split: if_splits)






text \<open>
  C4. A rule returned by the parser of a venue type has the key \<open>min_notional_value\<close>
  exactly when the venue type is spot or USDT-margined futures; the coin-margined parser
  never sets it.
\<close>

theorem min_notional_iff_spot_or_usdt:
  assumes "TYPE_MAP venue = Some parse" and "parse info = Inr rule"
  shows "(''min_notional_value'' \<in> dom rule) = (venue = ''spot'' \<or> venue = ''usdt_futures'')"
  using assms(1)
proof (cases rule: TYPE_MAP_cases)
  case 1
  with assms(2) have "parse_usdt_futures_syminfo info = Inr rule" by simp
  then show ?thesis using 1(1) by (elim usdt_shape) auto
next
  case 2
  with assms(2) have "parse_coin_futures_syminfo info = Inr rule" by simp
  then show ?thesis using 2(1) by (elim coin_shape) auto
next
  case 3
  with assms(2) have "parse_spot_syminfo info = Inr rule" by simp
  then show ?thesis using 3(1) by (elim spot_shape) auto
qed

theorem min_notional_iff_spot_or_usdt_witness:
  "TYPE_MAP ''usdt_futures'' = Some parse_usdt_futures_syminfo
   \<and> \<not> isl (parse_usdt_futures_syminfo (usdt_info ''0.10''))
   \<and> ''min_notional_value'' \<in> dom (projr (parse_usdt_futures_syminfo (usdt_info ''0.10'')))"
proof -
  have m: "TYPE_MAP ''usdt_futures'' = Some parse_usdt_futures_syminfo"
    by (simp add: TYPE_MAP_def)
  have a: "\<not> isl (parse_usdt_futures_syminfo (usdt_info ''0.10''))"
    by code_simp
  then have p: "parse_usdt_futures_syminfo (usdt_info ''0.10'')
      = Inr (projr (parse_usdt_futures_syminfo (usdt_info ''0.10'')))"
    by simp
  from min_notional_iff_spot_or_usdt [OF m p] m a show ?thesis by simp
qed

text \<open>
  C5. A record without a filter of a required type is rejected by the parser that requires
  it: the lookup returns \<open>None\<close> and \<open>Decimal(None)\<close> raises. The price filter is required
  by all three parsers, the lot-size filter by the spot and USDT-margined parsers, and the
  notional filter by each of those two under its own tag.
\<close>

theorem missing_filter_fails:
  "(\<not> has_filter info ''PRICE_FILTER'' \<longrightarrow>
      isl (parse_usdt_futures_syminfo info) \<and> isl (parse_coin_futures_syminfo info)
      \<and> isl (parse_spot_syminfo info))
   \<and> (\<not> has_filter info ''LOT_SIZE'' \<longrightarrow>
      isl (parse_usdt_futures_syminfo info) \<and> isl (parse_spot_syminfo info))
   \<and> (\<not> has_filter info ''MIN_NOTIONAL'' \<longrightarrow> isl (parse_usdt_futures_syminfo info))
   \<and> (\<not> has_filter info ''NOTIONAL'' \<longrightarrow> isl (parse_spot_syminfo info))"
proof -
  have u: "has_filter info ''PRICE_FILTER'' \<and> has_filter info ''LOT_SIZE''
      \<and> has_filter info ''MIN_NOTIONAL''"
    if "parse_usdt_futures_syminfo info = Inr rule" for rule
    using that by (elim usdt_shape) (blast intro: Decimal_needs_entry)
  have s: "has_filter info ''PRICE_FILTER'' \<and> has_filter info ''LOT_SIZE''
      \<and> has_filter info ''NOTIONAL''"
    if "parse_spot_syminfo info = Inr rule" for rule
    using that by (elim spot_shape) (blast intro: Decimal_needs_entry)
  have c: "has_filter info ''PRICE_FILTER''"
    if "parse_coin_futures_syminfo info = Inr rule" for rule
    using that by (elim coin_shape) (blast intro: Decimal_needs_entry)
  show ?thesis
    using u s c
    by (cases "parse_usdt_futures_syminfo info"; cases "parse_coin_futures_syminfo info";
        cases "parse_spot_syminfo info") auto
qed

theorem missing_filter_fails_witness:
  "\<not> has_filter unfiltered_info ''PRICE_FILTER'' \<and> \<not> has_filter unfiltered_info ''LOT_SIZE''
   \<and> \<not> has_filter unfiltered_info ''MIN_NOTIONAL'' \<and> \<not> has_filter unfiltered_info ''NOTIONAL''
   \<and> isl (parse_usdt_futures_syminfo unfiltered_info)
   \<and> isl (parse_coin_futures_syminfo unfiltered_info)
   \<and> isl (parse_spot_syminfo unfiltered_info)"
proof -
  have h: "\<not> has_filter unfiltered_info ''PRICE_FILTER''" "\<not> has_filter unfiltered_info ''LOT_SIZE''"
    "\<not> has_filter unfiltered_info ''MIN_NOTIONAL''" "\<not> has_filter unfiltered_info ''NOTIONAL''"
    by code_simp+
  with missing_filter_fails [of unfiltered_info] show ?thesis by simp
qed


section \<open>Properties of the funding-rate request and of construction\<close>

lemma traverse_Inr_iff:
  "traverse f xs = Inr ys \<longleftrightarrow> list_all2 (\<lambda>x y. f x = Inr y) xs ys"
proof (induction xs arbitrary: ys)
  case Nil
  show ?case by auto
next
  case (Cons x xs)
  show ?case
    by (cases ys) (auto simp: rbind_Inr_iff Cons.IH)
qed

lemma traverse_total:
  "(\<forall>x\<in>set xs. \<exists>y. f x = Inr y) \<Longrightarrow> \<exists>ys. traverse f xs = Inr ys"
  by (induction xs) (auto simp: rbind_def)

text \<open>
  C6. On a fetcher bound to the spot venue type, \<open>get_funding_rate\<close> raises
  \<open>RuntimeError\<close> and leaves the world as it was: whatever the transport would do on a
  request, none is sent.
\<close>

theorem spot_funding_rate_fails_first:
  assumes "trade_type self = ''spot''"
  shows "get_funding_rate numeric self w = (Inl RuntimeError, w)"
  using assms by (simp add: get_funding_rate_def ready_def)

theorem spot_funding_rate_fails_first_witness:
  "trade_type (bound_fetcher ''spot'' parse_spot_syminfo
      (recording_transport Map.empty [] funding_listing)) = ''spot''
   \<and> get_funding_rate decimal_reading
        (bound_fetcher ''spot'' parse_spot_syminfo
          (recording_transport Map.empty [] funding_listing)) 0
      = (Inl RuntimeError, 0)"
proof -
  have h: "trade_type (bound_fetcher ''spot'' parse_spot_syminfo
      (recording_transport Map.empty [] funding_listing)) = ''spot''"
    by (simp add: bound_fetcher_def)
  from spot_funding_rate_fails_first [OF h] h show ?thesis by simp
qed

text \<open>
  C7. On a fetcher of another venue type, a listing whose entries carry a symbol and a
  last-funding-rate string gives one row per entry, in the listing's order, with the entry's
  symbol; the rate of a row is \<open>NaN\<close> when the string has no numeric reading and the
  number read otherwise. No entry makes the call fail, and no row depends on another entry.
\<close>

theorem funding_rate_rows:
  assumes "trade_type self \<noteq> ''spot''"
    and "aioreq_premium_index (market_api self) w = (Inr data, w')"
    and "\<forall>d\<in>set data. \<exists>s r. d ''symbol'' = Some s \<and> d ''lastFundingRate'' = Some (JStr r)"
  shows "\<exists>rows. get_funding_rate numeric self w = (Inr rows, w')
     \<and> length rows = length data
     \<and> (\<forall>i<length data.
          (data ! i) ''symbol'' = Some (symbol (rows ! i))
          \<and> (\<forall>r. (data ! i) ''lastFundingRate'' = Some r \<longrightarrow>
                (numeric r = None \<longrightarrow> fundingRate (rows ! i) = NaN)
                \<and> (\<forall>v. numeric r = Some v \<longrightarrow> fundingRate (rows ! i) = Num v)))"
proof -
  from assms(3) have "\<forall>d\<in>set data. \<exists>row. funding_record numeric d = Inr row"
    by (auto simp: funding_record_def rbind_def subscript_def)
  then obtain rows where t: "traverse (funding_record numeric) data = Inr rows"
    using traverse_total by blast
  then have a: "list_all2 (\<lambda>d row. funding_record numeric d = Inr row) data rows"
    by (simp add: traverse_Inr_iff)
  then have len: "length rows = length data"
    by (simp add: list_all2_lengthD)
  have row: "funding_record numeric (data ! i) = Inr (rows ! i)" if "i < length data" for i
    using a that by (rule list_all2_nthD)
  have "(data ! i) ''symbol'' = Some (symbol (rows ! i))
          \<and> (\<forall>r. (data ! i) ''lastFundingRate'' = Some r \<longrightarrow>
                (numeric r = None \<longrightarrow> fundingRate (rows ! i) = NaN)
                \<and> (\<forall>v. numeric r = Some v \<longrightarrow> fundingRate (rows ! i) = Num v))"
    if "i < length data" for i
  proof -
    from row [OF that] obtain s r where "(data ! i) ''symbol'' = Some s"
      and "(data ! i) ''lastFundingRate'' = Some r"
      and "rows ! i = \<lparr>symbol = s, fundingRate = to_numeric_coerce numeric r\<rparr>"
      by (auto simp: funding_record_def rbind_Inr_iff subscript_Inr_iff)
    then show ?thesis by (simp add: to_numeric_coerce_def)
  qed
  moreover have "get_funding_rate numeric self w = (Inr rows, w')"
    using assms(1,2) t by (simp add: get_funding_rate_def abind_def ready_def)
  ultimately show ?thesis using len by blast
qed

theorem funding_rate_rows_witness:
  "get_funding_rate decimal_reading
     (bound_fetcher ''usdt_futures'' parse_usdt_futures_syminfo
       (recording_transport Map.empty [] funding_listing)) 0
   = (Inr [\<lparr>symbol = JStr ''BTCUSDT'', fundingRate = Num (DFinite False 1 (- 4))\<rparr>,
           \<lparr>symbol = JStr ''XYZUSDT'', fundingRate = NaN\<rparr>], 1)"
proof -
  let ?self = "bound_fetcher ''usdt_futures'' parse_usdt_futures_syminfo
       (recording_transport Map.empty [] funding_listing)"
  have h1: "trade_type ?self \<noteq> ''spot''"
    by (simp add: bound_fetcher_def)
  have h2: "aioreq_premium_index (market_api ?self) 0 = (Inr funding_listing, 1)"
    by (simp add: bound_fetcher_def recording_transport_def)
  have h3: "\<forall>d\<in>set funding_listing.
      \<exists>s r. d ''symbol'' = Some s \<and> d ''lastFundingRate'' = Some (JStr r)"
    by (simp add: funding_listing_def)
  have n: "decimal_reading (JStr ''0.0001'') = Some (DFinite False 1 (- 4))"
    "decimal_reading (JStr ''-'') = None"
    by code_simp+
  from funding_rate_rows [OF h1 h2 h3, of decimal_reading]
  obtain rows where r: "get_funding_rate decimal_reading ?self 0 = (Inr rows, 1)"
    and l: "length rows = length funding_listing"
    and v: "\<forall>i<length funding_listing.
          (funding_listing ! i) ''symbol'' = Some (symbol (rows ! i))
          \<and> (\<forall>r. (funding_listing ! i) ''lastFundingRate'' = Some r \<longrightarrow>
                (decimal_reading r = None \<longrightarrow> fundingRate (rows ! i) = NaN)
                \<and> (\<forall>v. decimal_reading r = Some v \<longrightarrow> fundingRate (rows ! i) = Num v))"
    by blast
  from l obtain a b where ab: "rows = [a, b]"
    by (cases rows; cases "tl rows"; cases "tl (tl rows)") (auto simp: funding_listing_def)
  from v [rule_format, of 0] n ab
  have "a = \<lparr>symbol = JStr ''BTCUSDT'', fundingRate = Num (DFinite False 1 (- 4))\<rparr>"
    by (cases a) (simp add: funding_listing_def)
  moreover from v [rule_format, of 1] n ab
  have "b = \<lparr>symbol = JStr ''XYZUSDT'', fundingRate = NaN\<rparr>"
    by (cases b) (simp add: funding_listing_def)
  ultimately show ?thesis using r ab by simp
qed





section \<open>Properties of the exchange-info request\<close>

lemma parse_symbols_last:
  assumes "parse_symbols parse infos acc = Inr results"
  shows "results k =
     (if filter (\<lambda>i. attrs i ''symbol'' = Some k) infos = [] then acc k
      else (case parse (last (filter (\<lambda>i. attrs i ''symbol'' = Some k) infos)) of
              Inl e \<Rightarrow> None | Inr rule \<Rightarrow> Some rule))"
  using assms
proof (induction infos arbitrary: acc)
  case Nil
  then show ?case by simp
next
  case (Cons info infos)
  from Cons.prems obtain rule s where p: "parse info = Inr rule"
    and s: "attrs info ''symbol'' = Some s"
    and rest: "parse_symbols parse infos (acc(s \<mapsto> rule)) = Inr results"
    by (auto simp: rbind_Inr_iff subscript_Inr_iff)
  from Cons.IH [OF rest] p s show ?case by auto
qed

lemma parse_symbols_all_parsed:
  assumes "parse_symbols parse infos acc = Inr results"
  shows "\<forall>i\<in>set infos. \<exists>rule s. parse i = Inr rule \<and> attrs i ''symbol'' = Some s"
  using assms
proof (induction infos arbitrary: acc)
  case Nil
  then show ?case by simp
next
  case (Cons info infos)
  from Cons.prems obtain rule s where p: "parse info = Inr rule"
    and s: "attrs info ''symbol'' = Some s"
    and rest: "parse_symbols parse infos (acc(s \<mapsto> rule)) = Inr results"
    by (auto simp: rbind_Inr_iff subscript_Inr_iff)
  from Cons.IH [OF rest] p s show ?case by auto
qed

lemma abind_ready_Inr:
  assumes "abind m (\<lambda>v. ready (f v)) w = (Inr r, w')"
  obtains v where "m w = (Inr v, w')" and "f v = Inr r"
  using assms by (auto simp: abind_def ready_def split: prod.splits sum.splits)

text \<open>
  C10. When \<open>get_exchange_info\<close> returns a mapping, the retried request returned a payload
  with a symbol listing; the keys of the mapping are the symbols of the listing's entries,
  and each key maps to the parse of the last entry of the listing that bears it. A mapping
  has one value per key, so a repeated symbol has exactly one rule.
\<close>

theorem exchange_info_last_entry_wins:
  assumes "get_exchange_info async_retry_getter self w = (Inr results, w')"
  shows "\<exists>exg_info infos.
     async_retry_getter (aioreq_exchange_info (market_api self)) w = (Inr exg_info, w')
     \<and> exg_info ''symbols'' = Some infos
     \<and> dom results = {k. \<exists>i\<in>set infos. attrs i ''symbol'' = Some k}
     \<and> (\<forall>k rule. results k = Some rule \<longrightarrow>
          filter (\<lambda>i. attrs i ''symbol'' = Some k) infos \<noteq> []
          \<and> syminfo_parse_func self (last (filter (\<lambda>i. attrs i ''symbol'' = Some k) infos))
              = Inr rule)"
proof -
  from assms obtain exg_info where
    r: "async_retry_getter (aioreq_exchange_info (market_api self)) w = (Inr exg_info, w')"
    and b: "rbind (subscript exg_info ''symbols'') (\<lambda>infos.
               parse_symbols (syminfo_parse_func self) infos Map.empty) = Inr results"
    unfolding get_exchange_info_def by (rule abind_ready_Inr)
  from b obtain infos where i: "exg_info ''symbols'' = Some infos"
    and p: "parse_symbols (syminfo_parse_func self) infos Map.empty = Inr results"
    by (auto simp: rbind_Inr_iff subscript_Inr_iff)
  let ?named = "\<lambda>k. filter (\<lambda>i. attrs i ''symbol'' = Some k) infos"
  have parsed: "\<exists>rule. syminfo_parse_func self i = Inr rule" if "i \<in> set infos" for i
    using parse_symbols_all_parsed [OF p] that by blast
  have val: "results k = (if ?named k = [] then None
      else (case syminfo_parse_func self (last (?named k)) of
              Inl e \<Rightarrow> None | Inr rule \<Rightarrow> Some rule))" for k
    using parse_symbols_last [OF p, of k] by simp
  have lastin: "last (?named k) \<in> set infos" if "?named k \<noteq> []" for k
  proof -
    from that have "last (?named k) \<in> set (?named k)" by (rule last_in_set)
    then show ?thesis by simp
  qed
  have d: "dom results = {k. \<exists>i\<in>set infos. attrs i ''symbol'' = Some k}"
  proof (rule set_eqI)
    fix k
    show "k \<in> dom results \<longleftrightarrow> k \<in> {k. \<exists>i\<in>set infos. attrs i ''symbol'' = Some k}"
    proof (cases "?named k = []")
      case True
      then have "\<not> (\<exists>i\<in>set infos. attrs i ''symbol'' = Some k)"
        by (simp add: filter_empty_conv)
      with True val [of k] show ?thesis by (simp add: dom_def)
    next
      case False
      then have "\<exists>i\<in>set infos. attrs i ''symbol'' = Some k"
        by (simp add: filter_empty_conv)
      moreover from parsed [OF lastin [OF False]] val [of k] False
      have "results k \<noteq> None" by auto
      ultimately show ?thesis by (simp add: dom_def)
    qed
  qed
  have v: "?named k \<noteq> [] \<and> syminfo_parse_func self (last (?named k)) = Inr rule"
    if "results k = Some rule" for k rule
    using that val [of k] by (auto split: if_splits sum.splits)
  from r i d v show ?thesis by blast
qed

theorem exchange_info_last_entry_wins_witness:
  "fst (get_exchange_info (\<lambda>request. request)
         (bound_fetcher ''usdt_futures'' parse_usdt_futures_syminfo
            (recording_transport repeated_symbol_payload [] [])) 0)
     = Inr (projr (fst (get_exchange_info (\<lambda>request. request)
         (bound_fetcher ''usdt_futures'' parse_usdt_futures_syminfo
            (recording_transport repeated_symbol_payload [] [])) 0)))
   \<and> dom (projr (fst (get_exchange_info (\<lambda>request. request)
         (bound_fetcher ''usdt_futures'' parse_usdt_futures_syminfo
            (recording_transport repeated_symbol_payload [] [])) 0))) = {JStr ''BTCUSDT''}
   \<and> projr (fst (get_exchange_info (\<lambda>request. request)
         (bound_fetcher ''usdt_futures'' parse_usdt_futures_syminfo
            (recording_transport repeated_symbol_payload [] [])) 0)) (JStr ''BTCUSDT'')
      = Some (projr (parse_usdt_futures_syminfo (usdt_info ''0.50'')))"
proof -
  let ?self = "bound_fetcher ''usdt_futures'' parse_usdt_futures_syminfo
            (recording_transport repeated_symbol_payload [] [])"
  let ?out = "get_exchange_info (\<lambda>request. request) ?self 0"
  have a: "\<not> isl (fst ?out)" "snd ?out = 1"
    by code_simp+
  then have h: "?out = (Inr (projr (fst ?out)), 1)"
    by (simp add: prod_eq_iff)
  have req: "aioreq_exchange_info (market_api ?self) 0 = (Inr repeated_symbol_payload, 1)"
    by (simp add: bound_fetcher_def recording_transport_def)
  have sy: "repeated_symbol_payload ''symbols'' = Some [usdt_info ''0.10'', usdt_info ''0.50'']"
    by (simp add: repeated_symbol_payload_def)
  have at: "attrs (usdt_info t) ''symbol'' = Some (JStr ''BTCUSDT'')" for t
    by (simp add: usdt_info_def)
  have pf: "syminfo_parse_func ?self = parse_usdt_futures_syminfo"
    by (simp add: bound_fetcher_def)
  from exchange_info_last_entry_wins [OF h] req sy
  have d: "dom (projr (fst ?out))
        = {k. \<exists>i\<in>set [usdt_info ''0.10'', usdt_info ''0.50'']. attrs i ''symbol'' = Some k}"
    and v: "\<forall>k rule. projr (fst ?out) k = Some rule \<longrightarrow>
          syminfo_parse_func ?self
            (last (filter (\<lambda>i. attrs i ''symbol'' = Some k)
               [usdt_info ''0.10'', usdt_info ''0.50''])) = Inr rule"
    by auto
  from d have d': "dom (projr (fst ?out)) = {JStr ''BTCUSDT''}"
    by (auto simp: at)
  then obtain rule where r: "projr (fst ?out) (JStr ''BTCUSDT'') = Some rule"
    by blast
  from v [rule_format, OF r] have "parse_usdt_futures_syminfo (usdt_info ''0.50'') = Inr rule"
    by (simp add: at pf)
  with r have l: "projr (fst ?out) (JStr ''BTCUSDT'')
      = Some (projr (parse_usdt_futures_syminfo (usdt_info ''0.50'')))"
    by simp
  from a(1) have "fst ?out = Inr (projr (fst ?out))" by simp
  from this d' l show ?thesis by (intro conjI)
qed


section \<open>Properties of the candle normalization\<close>

lemma rbind_Inr [simp]: "rbind (Inr v) f = f v"
  by (simp add: rbind_def)

lemma traverse_length: "traverse f xs = Inr ys \<Longrightarrow> length ys = length xs"
  by (simp add: traverse_Inr_iff list_all2_lengthD)


lemma traverse_to_datetime_ms: "traverse to_datetime_ms xs = Inr ys \<Longrightarrow> ys = xs"
proof (induction xs arbitrary: ys)
  case Nil
  then show ?case by simp
next
  case (Cons x xs)
  then show ?case
    by (auto simp: rbind_Inr_iff to_datetime_ms_def split: if_splits)
qed

lemma traverse_add_timedelta:
  "traverse (add_timedelta delta) xs = Inr ys \<Longrightarrow> ys = map (\<lambda>t. t + delta) xs"
proof (induction xs arbitrary: ys)
  case Nil
  then show ?case by simp
next
  case (Cons x xs)
  then show ?case
    by (auto simp: rbind_Inr_iff add_timedelta_def split: if_splits)
qed

lemma DataFrame_Inr_iff:
  "DataFrame klines = Inr df \<longleftrightarrow> df = klines \<and> (\<forall>r\<in>set klines. length r = 12)"
  by (auto simp: DataFrame_def list_all_iff)

lemma column_length: "length (column df i) = length df"
  by (simp add: column_def)

lemma original_shape:
  assumes "get_candle_with_original_pandas astype_int64 astype_float conv klines interval
     = Inr table"
  obtains begin_ms delta where
    "traverse astype_int64 (column klines 0) = Inr begin_ms"
    "conv interval = Inr delta"
    "candle_begin_time table = begin_ms"
    "index table = map (\<lambda>t. t + delta) begin_ms"
proof -
  from assms obtain df begin_ms begin_time c_open c_high c_low c_close c_volume c_quote_volume
      c_trade_num c_taker_base c_taker_quote delta end_time
    where df: "DataFrame klines = Inr df"
      and b: "traverse astype_int64 (column df 0) = Inr begin_ms"
        "traverse to_datetime_ms begin_ms = Inr begin_time"
      and d: "conv interval = Inr delta"
      and e: "traverse (add_timedelta delta) begin_time = Inr end_time"
      and r: "Inr \<lparr>index = end_time,
          candle_begin_time = begin_time,
          open_price = c_open,
          high = c_high,
          low = c_low,
          close = c_close,
          volume = c_volume,
          quote_volume = c_quote_volume,
          trade_num = c_trade_num,
          taker_buy_base_asset_volume = c_taker_base,
          taker_buy_quote_asset_volume = c_taker_quote\<rparr> = (Inr table :: ('a, 'a) candle_frame result)"
    unfolding get_candle_with_original_pandas_def by (elim rbind_InrE) blast
  from df have "df = klines" by (simp add: DataFrame_Inr_iff)
  moreover from b(2) have "begin_time = begin_ms" by (rule traverse_to_datetime_ms)
  moreover from e have "end_time = map (\<lambda>t. t + delta) begin_time"
    by (rule traverse_add_timedelta)
  moreover from r have "candle_begin_time table = begin_time" "index table = end_time"
    by auto
  ultimately show ?thesis using b(1) d by (auto intro: that)
qed

lemma traverse_column_total:
  assumes "\<forall>r\<in>set klines. \<exists>v. f (r ! i) = Inr v"
  shows "\<exists>vs. traverse f (column klines i) = Inr vs"
  using assms by (intro traverse_total) (simp add: column_def)

text \<open>
  The original normalization returns a table for every batch of twelve-cell records whose
  cells the casts accept, with begin and end times that pandas can hold, and a recognized
  interval tag.
\<close>

lemma original_accepts_valid_batch:
  assumes wide: "\<forall>r\<in>set klines. length r = 12"
    and ints: "\<forall>r\<in>set klines. \<exists>b. astype_int64 (r ! 0) = Inr b
        \<and> ns_in_bounds (b * 1000000) \<and> ns_in_bounds ((b + delta) * 1000000)"
    and floats: "\<forall>r\<in>set klines. \<forall>i\<in>{1, 2, 3, 4, 5, 7, 8, 9, 10}. \<exists>v. astype_float (r ! i) = Inr v"
    and tag: "conv interval = Inr delta"
  shows "\<exists>table. get_candle_with_original_pandas astype_int64 astype_float conv klines interval
     = Inr table"
proof -
  from wide have df: "DataFrame klines = Inr klines"
    by (simp add: DataFrame_Inr_iff)
  from ints obtain begin_ms where b: "traverse astype_int64 (column klines 0) = Inr begin_ms"
    using traverse_column_total [of klines astype_int64 0] by blast
  then have a: "list_all2 (\<lambda>c b. astype_int64 c = Inr b) (column klines 0) begin_ms"
    by (simp add: traverse_Inr_iff)
  have inb: "ns_in_bounds (t * 1000000) \<and> ns_in_bounds ((t + delta) * 1000000)"
    if "t \<in> set begin_ms" for t
  proof -
    from that obtain n where n: "n < length begin_ms" "begin_ms ! n = t"
      by (auto simp: in_set_conv_nth)
    from b have len: "length begin_ms = length klines"
      by (simp add: traverse_length column_length)
    from a n(1) have "astype_int64 (column klines 0 ! n) = Inr (begin_ms ! n)"
      by (rule list_all2_nthD2)
    with n len have c: "astype_int64 ((klines ! n) ! 0) = Inr t"
      by (simp add: column_def)
    from n(1) len have "klines ! n \<in> set klines" by simp
    with ints c show ?thesis by fastforce
  qed
  have dt: "traverse to_datetime_ms begin_ms = Inr begin_ms"
    using inb by (simp add: traverse_Inr_iff list_all2_same to_datetime_ms_def)
  have et: "traverse (add_timedelta delta) begin_ms = Inr (map (\<lambda>t. t + delta) begin_ms)"
    using inb by (simp add: traverse_Inr_iff list_all2_map2 list_all2_same add_timedelta_def)
  from floats obtain c1 c2 c3 c4 c5 c7 c8 c9 c10 where f:
    "traverse astype_float (column klines 1) = Inr c1"
    "traverse astype_float (column klines 2) = Inr c2"
    "traverse astype_float (column klines 3) = Inr c3"
    "traverse astype_float (column klines 4) = Inr c4"
    "traverse astype_float (column klines 5) = Inr c5"
    "traverse astype_float (column klines 7) = Inr c7"
    "traverse astype_float (column klines 8) = Inr c8"
    "traverse astype_float (column klines 9) = Inr c9"
    "traverse astype_float (column klines 10) = Inr c10"
    using traverse_column_total [of klines astype_float 1]
      traverse_column_total [of klines astype_float 2]
      traverse_column_total [of klines astype_float 3]
      traverse_column_total [of klines astype_float 4]
      traverse_column_total [of klines astype_float 5]
      traverse_column_total [of klines astype_float 7]
      traverse_column_total [of klines astype_float 8]
      traverse_column_total [of klines astype_float 9]
      traverse_column_total [of klines astype_float 10]
    by (simp (no_asm_use)) blast
  show ?thesis
    unfolding get_candle_with_original_pandas_def
    by (simp only: df b dt f tag et rbind_Inr) blast
qed

text \<open>
  C2. In a table returned by the original normalization, which is the one \<open>get_candle\<close>
  uses, the interval tag has a duration, the index holds one end time per raw record, and
  every end time is its row's begin time plus that duration.
\<close>

theorem end_time_is_begin_plus_duration:
  assumes "get_candle_with_original_pandas astype_int64 astype_float conv klines interval
     = Inr table"
  shows "\<exists>delta. conv interval = Inr delta
     \<and> length (index table) = length klines
     \<and> length (candle_begin_time table) = length klines
     \<and> (\<forall>i<length klines. index table ! i - candle_begin_time table ! i = delta)"
  using assms
proof (rule original_shape)
  fix begin_ms delta
  assume t: "traverse astype_int64 (column klines 0) = Inr begin_ms"
    and d: "conv interval = Inr delta"
    and b: "candle_begin_time table = begin_ms"
    and e: "index table = map (\<lambda>t. t + delta) begin_ms"
  from t have "length begin_ms = length klines"
    by (simp add: traverse_length column_length)
  with d b e show ?thesis by simp
qed

theorem end_time_is_begin_plus_duration_witness:
  "get_candle_with_original_pandas int_cell_int64 int_cell_float duration_of
      reverse_hour_batch ''1h''
     = Inr (projr (get_candle_with_original_pandas int_cell_int64 int_cell_float duration_of
         reverse_hour_batch ''1h''))
   \<and> duration_of ''1h'' = Inr 3600000
   \<and> index (projr (get_candle_with_original_pandas int_cell_int64 int_cell_float duration_of
         reverse_hour_batch ''1h'')) = [7200000, 3600000]
   \<and> candle_begin_time (projr (get_candle_with_original_pandas int_cell_int64 int_cell_float
         duration_of reverse_hour_batch ''1h'')) = [3600000, 0]"
proof -
  let ?out = "get_candle_with_original_pandas int_cell_int64 int_cell_float duration_of
      reverse_hour_batch ''1h''"
  have "\<not> isl ?out" by code_simp
  then have h: "?out = Inr (projr ?out)" by simp
  have d: "duration_of ''1h'' = Inr 3600000" by code_simp
  have b: "candle_begin_time (projr ?out) = [3600000, 0]" by code_simp
  have l: "length reverse_hour_batch = 2" by (simp add: reverse_hour_batch_def)
  from end_time_is_begin_plus_duration [OF h] d l
  have n: "length (index (projr ?out)) = 2"
    and v: "\<forall>i<2. index (projr ?out) ! i - candle_begin_time (projr ?out) ! i = 3600000"
    by auto
  from n obtain x y where xy: "index (projr ?out) = [x, y]"
    by (cases "index (projr ?out)"; cases "tl (index (projr ?out))";
        cases "tl (tl (index (projr ?out)))") auto
  from v [rule_format, of 0] v [rule_format, of 1] b xy
  have "x = 7200000" "y = 3600000" by simp_all
  with xy h d b show ?thesis by (intro conjI) simp_all
qed

text \<open>
  C1, on the code: \<open>get_candle\<close> hands the batch to the original normalization, which has
  no sorting step, so the rows come back in the order of the batch. The two one-hour
  records with begin times 3600000 and 0, in that order, come back in that order.
\<close>

theorem get_candle_keeps_batch_order:
  "get_candle (\<lambda>request. request) int_cell_int64 int_cell_float duration_of
      (bound_fetcher ''spot'' parse_spot_syminfo
         (recording_transport Map.empty reverse_hour_batch []))
      ''BTCUSDT'' ''1h'' () 0
     = (Inr \<lparr>index = [7200000, 3600000],
            candle_begin_time = [3600000, 0],
            open_price = [12, 10],
            high = [15, 13],
            low = [11, 9],
            close = [14, 12],
            volume = [100, 90],
            quote_volume = [1300, 990],
            trade_num = [42, 37],
            taker_buy_base_asset_volume = [60, 50],
            taker_buy_quote_asset_volume = [780, 550]\<rparr>, 1)
   \<and> \<not> sorted [3600000, 0 :: int]"
  by code_simp

text \<open>
  The two other normalizers do sort: whenever the library's sort puts the keys in
  non-decreasing order, the table they return has its begin times in non-decreasing order.
\<close>

lemma pandas_variant_sorted:
  assumes "get_candle_with_pandas astype_int astype_float sort_values conv klines interval
        = Inr table"
    and "\<forall>keys. is_argsort keys (sort_values keys)"
  shows "sorted (candle_begin_time table)"
proof -
  from assms(1) obtain begin_time where
    "candle_begin_time table = reorder (sort_values begin_time) begin_time"
    unfolding get_candle_with_pandas_def Let_def by (elim rbind_InrE) auto
  with assms(2) show ?thesis by (simp add: is_argsort_def)
qed

lemma polar_variant_sorted:
  assumes "get_candle_with_polar pl_Int64 pl_Float64 pl_sort conv klines interval = Inr table"
    and "\<forall>keys. is_argsort keys (pl_sort keys)"
  shows "sorted (candle_begin_time table)"
proof -
  from assms(1) obtain begin_time where
    "candle_begin_time table = reorder (pl_sort begin_time) begin_time"
    unfolding get_candle_with_polar_def Let_def by (elim rbind_InrE) auto
  with assms(2) show ?thesis by (simp add: is_argsort_def)
qed

section \<open>Agreement of the two sorting variants\<close>














text \<open>
  The two conditions of the statement are needed. With equal begin times the order of the
  tied rows is each sort's own choice: two sorts that both put the keys in non-decreasing
  order return the two candles of one hour in different orders. And the casts are each
  library's own: when one library reads numeric text and the other takes numbers only, a
  payload with prices as text is accepted by one variant and rejected by the other.
\<close>

lemma tie_order_is_the_sorts:
  "open_price (projr (get_candle_with_pandas int_cell_int64 int_cell_float stable_argsort
      duration_of repeated_hour_batch ''1h'')) = [12, 10]
   \<and> open_price (projr (get_candle_with_polar int_cell_int64 int_cell_float reversing_argsort
      duration_of repeated_hour_batch ''1h'')) = [10, 12]"
  by code_simp

lemma text_cells_split_the_variants:
  "\<not> isl (get_candle_with_pandas text_reading_int text_reading_float stable_argsort
      duration_of venue_batch ''1h'')
   \<and> isl (get_candle_with_polar numbers_only_int numbers_only_float stable_argsort
      duration_of venue_batch ''1h'')"
  by code_simp

end
